theory Spec2Isabelle
  imports Main "HOL-Library.Word" "HOL-Library.Sublist"
begin

unbundle bit_operations_syntax

section \<open>The streaming speech-recognition client\<close>

text \<open>
  A shallow embedding of \<^verbatim>\<open>src/core/voice/doubao_stream_voice_extractor.py\<close>: the
  binary frame layout (\<^verbatim>\<open>generate_header\<close>, \<^verbatim>\<open>generate_before_payload\<close>,
  \<^verbatim>\<open>parse_response\<close>), the segment sizes of \<^verbatim>\<open>AsrWsClient.execute\<close> and the
  live path \<^verbatim>\<open>AsrWsClient.process_chunk\<close> with its incremental-text state.
  Python exceptions (instances of \<^verbatim>\<open>Exception\<close>, which is what the module catches)
  are values of \<open>py_error\<close>; a function that can raise returns \<open>py_error + 'a\<close>
  with \<open>Inl\<close> for the exception.
\<close>

subsection \<open>Python values and exceptions\<close>

type_synonym byte = "8 word"

text \<open>
  The values \<^verbatim>\<open>json.loads\<close> produces, and \<^verbatim>\<open>bytes\<close>. A JSON object is an
  association list read with \<open>map_of\<close>. JSON numbers with a fraction or an exponent
  (Python \<^verbatim>\<open>float\<close>) are not represented. A \<^verbatim>\<open>str\<close> is the list of the bytes of
  its UTF-8 form; a surrogate code point, which \<^verbatim>\<open>json.loads\<close> accepts from an escape
  such as \<^verbatim>\<open>\ud800\<close>, is the three bytes \<open>ED A0..BF 80..BF\<close>.
\<close>

datatype pyval =
    PNone
  | PBool bool
  | PInt int
  | PStr string
  | PBytes "byte list"
  | PList "pyval list"
  | PDict "(string \<times> pyval) list"

datatype py_error =
    IndexError
  | ValueError
  | OverflowError
  | TypeError
  | AttributeError
  | KeyError
  | UnicodeDecodeError
  | UnicodeEncodeError
  | JSONDecodeError
  | BadGzipFile
  | WebSocketError string
  | AsrInitFailed pyval
  | AsrConnectFailed py_error
  | UnsupportedFormat

definition bind_err :: "py_error + 'a \<Rightarrow> ('a \<Rightarrow> py_error + 'b) \<Rightarrow> py_error + 'b" where
  "bind_err m f = (case m of Inl e \<Rightarrow> Inl e | Inr x \<Rightarrow> f x)"

text \<open>
  The library functions the module calls (\<^verbatim>\<open>gzip\<close>, \<^verbatim>\<open>json\<close>, the UTF-8 codec)
  are parameters of the model: the module's own code is what is embedded. So are two
  properties of the platform: which texts the encoding of standard output can write
  (\<open>stdout_encodable\<close>), and the value of \<^verbatim>\<open>int(a / b)\<close> where the float arithmetic is
  not exact (\<open>float_int_truediv\<close>).
\<close>

record library =
  gzip_compress :: "byte list \<Rightarrow> byte list"
  gzip_decompress :: "byte list \<Rightarrow> py_error + byte list"
  utf8_decode :: "byte list \<Rightarrow> py_error + string"
  utf8_encode :: "string \<Rightarrow> byte list"
  json_loads :: "string \<Rightarrow> py_error + pyval"
  json_dumps :: "pyval \<Rightarrow> string"
  stdout_encodable :: "string \<Rightarrow> bool"
  float_int_truediv :: "int \<Rightarrow> int \<Rightarrow> py_error + int"

subsection \<open>Protocol constants\<close>

definition PROTOCOL_VERSION :: nat where "PROTOCOL_VERSION = 1"
definition DEFAULT_HEADER_SIZE :: nat where "DEFAULT_HEADER_SIZE = 1"

definition FULL_CLIENT_REQUEST :: nat where "FULL_CLIENT_REQUEST = 1"
definition AUDIO_ONLY_REQUEST :: nat where "AUDIO_ONLY_REQUEST = 2"
definition FULL_SERVER_RESPONSE :: nat where "FULL_SERVER_RESPONSE = 9"
definition SERVER_ACK :: nat where "SERVER_ACK = 11"
definition SERVER_ERROR_RESPONSE :: nat where "SERVER_ERROR_RESPONSE = 15"

definition NO_SEQUENCE :: nat where "NO_SEQUENCE = 0"
definition POS_SEQUENCE :: nat where "POS_SEQUENCE = 1"
definition NEG_SEQUENCE :: nat where "NEG_SEQUENCE = 2"
definition NEG_WITH_SEQUENCE :: nat where "NEG_WITH_SEQUENCE = 3"
definition NEG_SEQUENCE_1 :: nat where "NEG_SEQUENCE_1 = 3"

definition NO_SERIALIZATION :: nat where "NO_SERIALIZATION = 0"
definition JSON :: nat where "JSON = 1"

definition NO_COMPRESSION :: nat where "NO_COMPRESSION = 0"
definition GZIP :: nat where "GZIP = 1"

lemmas protocol_constants =
  PROTOCOL_VERSION_def DEFAULT_HEADER_SIZE_def FULL_CLIENT_REQUEST_def AUDIO_ONLY_REQUEST_def
  FULL_SERVER_RESPONSE_def SERVER_ACK_def SERVER_ERROR_RESPONSE_def NO_SEQUENCE_def
  POS_SEQUENCE_def NEG_SEQUENCE_def NEG_WITH_SEQUENCE_def NEG_SEQUENCE_1_def
  NO_SERIALIZATION_def JSON_def NO_COMPRESSION_def GZIP_def

subsection \<open>Integers as big-endian bytes\<close>

text \<open>
  \<^verbatim>\<open>int.from_bytes(bs, "big", signed=...)\<close> accepts any number of bytes, also none
  (the slices \<^verbatim>\<open>payload[:4]\<close> of a short buffer): the empty string reads as 0, and the
  sign bit is the top bit of the first byte that is there.
\<close>

definition from_bytes_unsigned :: "byte list \<Rightarrow> int" where
  "from_bytes_unsigned bs = foldl (\<lambda>acc b. acc * 256 + uint b) 0 bs"

definition from_bytes_signed :: "byte list \<Rightarrow> int" where
  "from_bytes_signed bs =
     (let u = from_bytes_unsigned bs; n = 8 * length bs
      in if bs \<noteq> [] \<and> 2 ^ (n - 1) \<le> u then u - 2 ^ n else u)"

text \<open>The \<open>n\<close> big-endian base-256 digits of \<open>v mod 256 ^ n\<close> (two's complement).\<close>

fun be_bytes :: "nat \<Rightarrow> int \<Rightarrow> byte list" where
  "be_bytes 0 v = []"
| "be_bytes (Suc n) v = be_bytes n (v div 256) @ [word_of_int (v mod 256)]"

text \<open>\<^verbatim>\<open>v.to_bytes(n, 'big')\<close> and \<^verbatim>\<open>v.to_bytes(n, 'big', signed=True)\<close>.\<close>

definition to_bytes_unsigned :: "int \<Rightarrow> nat \<Rightarrow> py_error + byte list" where
  "to_bytes_unsigned v n =
     (if 0 \<le> v \<and> v < 256 ^ n then Inr (be_bytes n v) else Inl OverflowError)"

definition to_bytes_signed :: "int \<Rightarrow> nat \<Rightarrow> py_error + byte list" where
  "to_bytes_signed v n =
     (if n \<noteq> 0 \<and> - (2 ^ (8 * n - 1)) \<le> v \<and> v < 2 ^ (8 * n - 1) then Inr (be_bytes n v)
      else if n = 0 \<and> v = 0 then Inr []
      else Inl OverflowError)"

subsection \<open>Building frames\<close>

text \<open>\<^verbatim>\<open>bytearray.append(x)\<close> raises \<^verbatim>\<open>ValueError\<close> unless \<open>0 \<le> x < 256\<close>.\<close>

definition append_byte :: "byte list \<Rightarrow> nat \<Rightarrow> py_error + byte list" where
  "append_byte header x = (if x < 256 then Inr (header @ [of_nat x]) else Inl ValueError)"

definition generate_header :: "nat \<Rightarrow> nat \<Rightarrow> nat \<Rightarrow> nat \<Rightarrow> nat \<Rightarrow> py_error + byte list" where
  "generate_header message_type message_type_specific_flags serial_method compression_type
       reserved_data =
     (let header_size = 1 in
      bind_err (append_byte [] (push_bit 4 PROTOCOL_VERSION OR header_size)) (\<lambda>header.
      bind_err (append_byte header (push_bit 4 message_type OR message_type_specific_flags)) (\<lambda>header.
      bind_err (append_byte header (push_bit 4 serial_method OR compression_type)) (\<lambda>header.
      append_byte header reserved_data))))"

definition generate_before_payload :: "int \<Rightarrow> py_error + byte list" where
  "generate_before_payload sequence = to_bytes_signed sequence 4"

text \<open>
  The module has no frame encoder of its own name: every frame it sends is assembled in
  place, the same way each time (lines 262-271, 364-367 and 414-424): header, sequence
  number, length of the payload bytes, payload bytes. \<open>build_frame\<close> is that assembly,
  with the header fields that \<^verbatim>\<open>generate_header\<close> takes.
\<close>

definition build_frame ::
    "nat \<Rightarrow> nat \<Rightarrow> nat \<Rightarrow> nat \<Rightarrow> int \<Rightarrow> byte list \<Rightarrow> py_error + byte list" where
  "build_frame message_type message_type_specific_flags serial_method compression_type
       sequence payload_bytes =
     bind_err (generate_header message_type message_type_specific_flags serial_method
                 compression_type 0) (\<lambda>request.
     bind_err (generate_before_payload sequence) (\<lambda>before_payload.
     bind_err (to_bytes_unsigned (int (length payload_bytes)) 4) (\<lambda>size_bytes.
     Inr (request @ before_payload @ size_bytes @ payload_bytes))))"

subsection \<open>Decoding frames\<close>

text \<open>The dictionary \<^verbatim>\<open>parse_response\<close> returns; an absent key is \<open>None\<close>.\<close>

record response =
  is_last_package :: bool
  payload_sequence :: "int option"
  seq :: "int option"
  code :: "int option"
  payload_msg :: "pyval option"
  payload_size :: "int option"

text \<open>
  \<^verbatim>\<open>parse_response\<close>. \<^verbatim>\<open>res[0]\<close> to \<^verbatim>\<open>res[3]\<close> raise \<^verbatim>\<open>IndexError\<close> on a buffer
  shorter than four bytes; the slices never raise. The local variables that are read but
  not used (\<^verbatim>\<open>protocol_version\<close>, \<^verbatim>\<open>reserved\<close>, \<^verbatim>\<open>header_extensions\<close>) are left out.
\<close>

definition parse_response :: "library \<Rightarrow> byte list \<Rightarrow> py_error + response" where
  "parse_response lib res =
     (if length res < 4 then Inl IndexError
      else
        let header_size = unat (res ! 0 AND 0x0f);
            message_type = unat (drop_bit 4 (res ! 1));
            message_type_specific_flags = res ! 1 AND 0x0f;
            serialization_method = unat (drop_bit 4 (res ! 2));
            message_compression = unat (res ! 2 AND 0x0f);
            payload = drop (header_size * 4) res;
            result = \<lparr>is_last_package = False, payload_sequence = None, seq = None,
                      code = None, payload_msg = None, payload_size = None\<rparr>;
            (result, payload) =
              (if message_type_specific_flags AND 0x01 \<noteq> 0
               then (result\<lparr>payload_sequence := Some (from_bytes_signed (take 4 payload))\<rparr>,
                     drop 4 payload)
               else (result, payload));
            result =
              (if message_type_specific_flags AND 0x02 \<noteq> 0
               then result\<lparr>is_last_package := True\<rparr> else result);
            (result, payload_size, payload_msg) =
              (if message_type = FULL_SERVER_RESPONSE
               then (result, from_bytes_signed (take 4 payload), Some (drop 4 payload))
               else if message_type = SERVER_ACK
               then (let result = result\<lparr>seq := Some (from_bytes_signed (take 4 payload))\<rparr>
                     in if 8 \<le> length payload
                        then (result, from_bytes_unsigned (take 4 (drop 4 payload)),
                              Some (drop 8 payload))
                        else (result, 0, None))
               else if message_type = SERVER_ERROR_RESPONSE
               then (result\<lparr>code := Some (from_bytes_unsigned (take 4 payload))\<rparr>,
                     from_bytes_unsigned (take 4 (drop 4 payload)), Some (drop 8 payload))
               else (result, 0, None))
        in case payload_msg of
             None \<Rightarrow> Inr result
           | Some body \<Rightarrow>
               bind_err (if message_compression = GZIP then gzip_decompress lib body
                         else Inr body) (\<lambda>body.
               bind_err (if serialization_method = JSON
                         then bind_err (utf8_decode lib body) (json_loads lib)
                         else if serialization_method \<noteq> NO_SERIALIZATION
                         then bind_err (utf8_decode lib body) (\<lambda>s. Inr (PStr s))
                         else Inr (PBytes body)) (\<lambda>msg.
               Inr (result\<lparr>payload_msg := Some msg, payload_size := Some payload_size\<rparr>))))"

subsection \<open>The operations of Python the live path uses on decoded values\<close>

text \<open>Truth value of an object, as \<^verbatim>\<open>if x\<close> and \<^verbatim>\<open>x and y\<close> test it.\<close>

fun py_truthy :: "pyval \<Rightarrow> bool" where
  "py_truthy PNone = False"
| "py_truthy (PBool b) = b"
| "py_truthy (PInt n) = (n \<noteq> 0)"
| "py_truthy (PStr s) = (s \<noteq> [])"
| "py_truthy (PBytes b) = (b \<noteq> [])"
| "py_truthy (PList l) = (l \<noteq> [])"
| "py_truthy (PDict d) = (d \<noteq> [])"

text \<open>
  \<^verbatim>\<open>key in v\<close> for a \<^verbatim>\<open>str\<close> key: key membership in a dict, element membership in a
  list (only a \<^verbatim>\<open>str\<close> equals a \<^verbatim>\<open>str\<close>), substring test in a \<^verbatim>\<open>str\<close>,
  \<^verbatim>\<open>TypeError\<close> on \<^verbatim>\<open>bytes\<close> and on objects that are not containers.
\<close>

fun py_contains :: "string \<Rightarrow> pyval \<Rightarrow> py_error + bool" where
  "py_contains k (PDict d) = Inr (k \<in> fst ` set d)"
| "py_contains k (PList l) = Inr (PStr k \<in> set l)"
| "py_contains k (PStr s) = Inr (sublist k s)"
| "py_contains k v = Inl TypeError"

text \<open>\<^verbatim>\<open>v[key]\<close> for a \<^verbatim>\<open>str\<close> key: defined on a dict only.\<close>

fun py_getitem :: "pyval \<Rightarrow> string \<Rightarrow> py_error + pyval" where
  "py_getitem (PDict d) k = (case map_of d k of None \<Rightarrow> Inl KeyError | Some v \<Rightarrow> Inr v)"
| "py_getitem v k = Inl TypeError"

text \<open>\<^verbatim>\<open>v.get(key, default)\<close>: a method of dict only.\<close>

fun py_get :: "pyval \<Rightarrow> string \<Rightarrow> pyval \<Rightarrow> py_error + pyval" where
  "py_get (PDict d) k dflt = Inr (case map_of d k of None \<Rightarrow> dflt | Some v \<Rightarrow> v)"
| "py_get v k dflt = Inl AttributeError"

text \<open>
  The elements a \<^verbatim>\<open>for\<close> loop sees: those of a list, the keys of a dict, the characters
  of a \<^verbatim>\<open>str\<close>, the byte values of \<^verbatim>\<open>bytes\<close>.
\<close>

fun py_iter :: "pyval \<Rightarrow> py_error + pyval list" where
  "py_iter (PList l) = Inr l"
| "py_iter (PDict d) = Inr (map (\<lambda>kv. PStr (fst kv)) d)"
| "py_iter (PStr s) = Inr (map (\<lambda>c. PStr [c]) s)"
| "py_iter (PBytes b) = Inr (map (\<lambda>x. PInt (uint x)) b)"
| "py_iter v = Inl TypeError"

text \<open>\<^verbatim>\<open>''.join(ws)\<close>: \<^verbatim>\<open>TypeError\<close> unless every item is a \<^verbatim>\<open>str\<close>.\<close>

fun py_join :: "pyval list \<Rightarrow> py_error + string" where
  "py_join [] = Inr []"
| "py_join (PStr s # ws) = bind_err (py_join ws) (\<lambda>rest. Inr (s @ rest))"
| "py_join (v # ws) = Inl TypeError"

text \<open>\<^verbatim>\<open>v == n\<close> for an \<^verbatim>\<open>int\<close> \<open>n\<close>: \<^verbatim>\<open>True == 1\<close> and \<^verbatim>\<open>False == 0\<close> hold.\<close>

fun py_eq_int :: "pyval \<Rightarrow> int \<Rightarrow> bool" where
  "py_eq_int (PInt m) n = (m = n)"
| "py_eq_int (PBool b) n = ((if b then 1 else 0) = n)"
| "py_eq_int v n = False"

text \<open>A list comprehension \<^verbatim>\<open>[f(x) for x in xs]\<close>: the first exception ends it.\<close>

fun map_err :: "('a \<Rightarrow> py_error + 'b) \<Rightarrow> 'a list \<Rightarrow> py_error + 'b list" where
  "map_err f [] = Inr []"
| "map_err f (x # xs) = bind_err (f x) (\<lambda>y. bind_err (map_err f xs) (\<lambda>ys. Inr (y # ys)))"

text \<open>
  \<^verbatim>\<open>int(a / b)\<close> on integers, for the two divisors of the module, 500 and 1000: true
  division, then truncation towards zero. The quotient is a \<^verbatim>\<open>float\<close>. For
  \<open>\<bar>a\<bar> < 2 ^ 53\<close> the nearest float to the quotient lies on the same side of every integer
  as the quotient itself (the quotient is at least 1/1000 away from the next integer, half
  a unit in the last place is less), so truncating it gives the exact truncated quotient.
  Beyond that the result is the platform's.
\<close>

definition int_truediv :: "library \<Rightarrow> int \<Rightarrow> int \<Rightarrow> py_error + int" where
  "int_truediv lib a b =
     (if \<bar>a\<bar> < 2 ^ 53 then Inr (sgn a * sgn b * (\<bar>a\<bar> div \<bar>b\<bar>))
      else float_int_truediv lib a b)"

text \<open>
  \<^verbatim>\<open>print(f"...{v}")\<close>. Standard output is taken to write the module's own literals and
  the \<^verbatim>\<open>repr\<close> of any object, which escapes what cannot be printed; numbers, lists and
  dicts are formatted through it. A \<^verbatim>\<open>str\<close> is formatted as itself, and \<^verbatim>\<open>print\<close>
  raises \<^verbatim>\<open>UnicodeEncodeError\<close> when standard output cannot encode it. The messages of
  exceptions (\<^verbatim>\<open>str(e)\<close>), the request id and the configured URL are taken to be
  writable, so the other \<^verbatim>\<open>print\<close> calls of the module do not raise.
\<close>

definition py_print :: "library \<Rightarrow> pyval \<Rightarrow> py_error option" where
  "py_print lib v =
     (case v of
        PStr s \<Rightarrow> if stdout_encodable lib s then None else Some UnicodeEncodeError
      | _ \<Rightarrow> None)"

text \<open>A sequence of statements that each may raise: the first exception ends it.\<close>

fun first_error :: "py_error option list \<Rightarrow> py_error option" where
  "first_error [] = None"
| "first_error (None # rest) = first_error rest"
| "first_error (Some e # rest) = Some e"

subsection \<open>The client object\<close>

text \<open>
  The attributes of \<^verbatim>\<open>AsrWsClient\<close>; \<^verbatim>\<open>self._x\<close> is the field \<open>self_x\<close>. The
  attributes \<^verbatim>\<open>_sequence\<close>, \<^verbatim>\<open>_reqid\<close> and \<^verbatim>\<open>_is_first_chunk\<close> do not exist until
  \<^verbatim>\<open>process_chunk\<close> creates them (\<open>None\<close>), and \<open>self_ws\<close> says whether the attribute
  \<^verbatim>\<open>_ws\<close> exists; the socket itself belongs to the network.

  \<^verbatim>\<open>_last_words\<close> is a list of \<^verbatim>\<open>str\<close>: it starts empty and is only ever replaced by a
  word list whose new words have passed \<^verbatim>\<open>''.join\<close> and whose other words equal
  members of the previous list.
\<close>

record client =
  self_audio_path :: "string option"
  self_success_code :: int
  self_seg_duration :: int
  self_uid :: string
  self_format :: string
  self_rate :: int
  self_bits :: int
  self_channel :: int
  self_codec :: string
  self_mp3_seg_size :: int
  self_last_text :: pyval
  self_last_sequence :: int
  self_accumulated_text :: pyval
  self_last_words :: "string list"
  self_sequence :: "int option"
  self_is_first_chunk :: "bool option"
  self_reqid :: "string option"
  self_ws :: bool

text \<open>\<^verbatim>\<open>AsrWsClient.__init__\<close>, with the keyword arguments it reads already defaulted.\<close>

definition AsrWsClient_init ::
    "string option \<Rightarrow> int \<Rightarrow> string \<Rightarrow> string \<Rightarrow> int \<Rightarrow> int \<Rightarrow> int \<Rightarrow> string \<Rightarrow> int \<Rightarrow> client" where
  "AsrWsClient_init audio_path seg_duration uid fmt rate bits channel codec mp3_seg_size =
     \<lparr>self_audio_path = audio_path, self_success_code = 1000,
      self_seg_duration = seg_duration, self_uid = uid, self_format = fmt, self_rate = rate,
      self_bits = bits, self_channel = channel, self_codec = codec,
      self_mp3_seg_size = mp3_seg_size, self_last_text = PStr [], self_last_sequence = 0,
      self_accumulated_text = PStr [], self_last_words = [], self_sequence = None,
      self_is_first_chunk = None, self_reqid = None, self_ws = False\<rparr>"

definition construct_request :: "client \<Rightarrow> pyval" where
  "construct_request c =
     PDict [
       (''user'', PDict [(''uid'', PStr (self_uid c))]),
       (''audio'', PDict [
          (''format'', PStr (self_format c)),
          (''sample_rate'', PInt (self_rate c)),
          (''bits'', PInt (self_bits c)),
          (''channel'', PInt (self_channel c)),
          (''codec'', PStr (self_codec c))]),
       (''request'', PDict [
          (''model_name'', PStr ''bigmodel''),
          (''enable_punc'', PBool True),
          (''enable_itn'', PBool True),
          (''enable_timestamp'', PBool True),
          (''enable_vad'', PBool True),
          (''vad_pause_time'', PInt 500),
          (''vad_max_duration'', PInt 60000),
          (''vad_max_sentence_silence'', PInt 800)])]"

subsection \<open>Batch mode: the segment size\<close>

text \<open>
  \<^verbatim>\<open>AsrWsClient.execute\<close> up to its call of \<^verbatim>\<open>segment_data_processor\<close>: the segment
  size it passes, by format, or \<open>None\<close> when the client has no audio path and
  \<^verbatim>\<open>execute\<close> returns \<^verbatim>\<open>None\<close> without computing a size. \<open>file_data\<close> is what reading
  the file gives, \<open>wav_info\<close> what \<^verbatim>\<open>read_wav_info\<close> gives on its bytes (channels,
  sample width, frame rate).
\<close>

definition execute_segment_size ::
    "library \<Rightarrow> client \<Rightarrow> py_error + byte list \<Rightarrow> py_error + int \<times> int \<times> int
       \<Rightarrow> py_error + int option" where
  "execute_segment_size lib c file_data wav_info =
     (if (case self_audio_path c of None \<Rightarrow> False | Some path \<Rightarrow> path \<noteq> []) then
        bind_err file_data (\<lambda>audio_data.
          if self_format c = ''mp3'' then Inr (Some (self_mp3_seg_size c))
          else if self_format c = ''wav'' then
            bind_err wav_info (\<lambda>(nchannels, sampwidth, framerate).
              let size_per_sec = nchannels * sampwidth * framerate
              in bind_err (int_truediv lib (size_per_sec * self_seg_duration c) 1000)
                   (\<lambda>segment_size. Inr (Some segment_size)))
          else if self_format c = ''pcm'' then
            bind_err (int_truediv lib
                        (self_rate c * 2 * self_channel c * self_seg_duration c) 500)
              (\<lambda>segment_size. Inr (Some segment_size))
          else Inl UnsupportedFormat)
      else Inr None)"

subsection \<open>Live mode: one call of \<^verbatim>\<open>process_chunk\<close>\<close>

text \<open>
  What the network does during one call: the request id drawn, whether
  \<^verbatim>\<open>websockets.connect\<close>, the two \<^verbatim>\<open>send\<close> calls and the two \<^verbatim>\<open>recv\<close> calls raise,
  and the bytes the \<^verbatim>\<open>recv\<close> calls return.
\<close>

record network =
  new_reqid :: string
  connect_error :: "py_error option"
  init_send_error :: "py_error option"
  init_recv :: "py_error + byte list"
  audio_send_error :: "py_error option"
  audio_recv :: "py_error + byte list"

text \<open>The frames a call has put on the socket.\<close>

record sent_frames =
  sent_full_client_request :: "byte list option"
  sent_audio_only_request :: "byte list option"

text \<open>The dictionary \<^verbatim>\<open>process_chunk\<close> returns.\<close>

record chunk_result =
  error :: "py_error option"
  partial_text :: string
  is_final :: pyval
  full_text :: pyval
  sequence :: int

text \<open>The default of \<^verbatim>\<open>.get('message', ...)\<close>: four CJK characters, as UTF-8.\<close>

definition unknown_error_message :: string where
  "unknown_error_message =
     map char_of [0xE6, 0x9C, 0xAA, 0xE7, 0x9F, 0xA5, 0xE9, 0x94, 0x99, 0xE8, 0xAF, 0xAF :: nat]"

text \<open>
  Lines 357-386: the initial request and its response, inside the inner \<^verbatim>\<open>try\<close>. The
  result is the exception raised, if any, and the frame sent, if any.
\<close>

definition init_exchange :: "library \<Rightarrow> network \<Rightarrow> client \<Rightarrow> py_error option \<times> byte list option" where
  "init_exchange lib net c =
     (let request_params = construct_request c;
          payload_bytes = utf8_encode lib (json_dumps lib request_params);
          payload_bytes = gzip_compress lib payload_bytes
      in case self_sequence c of
           None \<Rightarrow> (Some AttributeError, None)
         | Some s \<Rightarrow>
      (case build_frame FULL_CLIENT_REQUEST POS_SEQUENCE JSON GZIP s payload_bytes of
           Inl e \<Rightarrow> (Some e, None)
         | Inr full_client_request \<Rightarrow>
      (case init_send_error net of
           Some e \<Rightarrow> (Some e, None)
         | None \<Rightarrow>
      (case init_recv net of
           Inl e \<Rightarrow> (Some e, Some full_client_request)
         | Inr res \<Rightarrow>
      (case parse_response lib res of
           Inl e \<Rightarrow> (Some e, Some full_client_request)
         | Inr result \<Rightarrow>
      (case payload_msg result of
           None \<Rightarrow> (None, Some full_client_request)
         | Some msg \<Rightarrow>
      (case py_get msg ''code'' PNone of
           Inl e \<Rightarrow> (Some e, Some full_client_request)
         | Inr status \<Rightarrow>
             if \<not> py_eq_int status (self_success_code c)
             then (case py_get msg ''message'' (PStr unknown_error_message) of
                     Inl e \<Rightarrow> (Some e, Some full_client_request)
                   | Inr error_msg \<Rightarrow>
                       (case py_print lib error_msg of
                          Some e \<Rightarrow> (Some e, Some full_client_request)
                        | None \<Rightarrow> (Some (AsrInitFailed error_msg), Some full_client_request)))
             else (None, Some full_client_request))))))))"

text \<open>
  Lines 320-390: the first call, and every call until a socket exists, opens the connection.
  Any exception of the inner \<^verbatim>\<open>try\<close> is raised again as a connection failure; the
  attributes assigned before it stay assigned.
\<close>

definition open_connection ::
    "library \<Rightarrow> network \<Rightarrow> client \<Rightarrow> py_error option \<times> client \<times> byte list option" where
  "open_connection lib net c =
     (if self_sequence c = None \<or> \<not> self_ws c then
        (let c = c\<lparr>self_sequence := Some 1, self_is_first_chunk := Some True,
                   self_reqid := Some (new_reqid net)\<rparr>
         in case connect_error net of
              Some e \<Rightarrow> (Some (AsrConnectFailed e), c, None)
            | None \<Rightarrow>
                (let c = c\<lparr>self_ws := True\<rparr>
                 in case init_exchange lib net c of
                      (Some e, sent) \<Rightarrow> (Some (AsrConnectFailed e), c, sent)
                    | (None, sent) \<Rightarrow> (None, c, sent)))
      else (None, c, None))"

text \<open>
  Lines 392-436: the audio frame and its response. The conversion through
  \<^verbatim>\<open>np.frombuffer(..., dtype=np.int16).tobytes()\<close> returns the bytes it was given, and
  its exceptions are caught on the spot, so \<^verbatim>\<open>audio_bytes\<close> is unchanged by it.
\<close>

definition send_audio ::
    "library \<Rightarrow> network \<Rightarrow> client \<Rightarrow> byte list
       \<Rightarrow> (py_error + response) \<times> client \<times> byte list option" where
  "send_audio lib net c audio_bytes =
     (case self_sequence c of
        None \<Rightarrow> (Inl AttributeError, c, None)
      | Some s \<Rightarrow>
     (let c = c\<lparr>self_sequence := Some (s + 1)\<rparr>;
          is_last = False;
          payload_bytes = gzip_compress lib audio_bytes;
          flags = (if is_last then NEG_WITH_SEQUENCE else POS_SEQUENCE);
          seq_no = (if is_last then - (s + 1) else s + 1)
      in case build_frame AUDIO_ONLY_REQUEST flags JSON GZIP seq_no payload_bytes of
           Inl e \<Rightarrow> (Inl e, c, None)
         | Inr audio_only_request \<Rightarrow>
      (case audio_send_error net of
           Some e \<Rightarrow> (Inl e, c, None)
         | None \<Rightarrow>
      (case audio_recv net of
           Inl e \<Rightarrow> (Inl e, c, Some audio_only_request)
         | Inr res \<Rightarrow> (parse_response lib res, c, Some audio_only_request)))))"

subsection \<open>Live mode: the incremental result\<close>

text \<open>Lines 450-454: the texts of all words of all utterances, in order.\<close>

definition utterance_words :: "pyval \<Rightarrow> py_error + pyval list" where
  "utterance_words utterance =
     bind_err (py_contains ''words'' utterance) (\<lambda>has_words.
       if has_words
       then bind_err (py_getitem utterance ''words'') (\<lambda>words.
            bind_err (py_iter words) (map_err (\<lambda>word. py_getitem word ''text'')))
       else Inr [])"

fun extend_words :: "pyval list \<Rightarrow> py_error + pyval list" where
  "extend_words [] = Inr []"
| "extend_words (utterance # rest) =
     bind_err (utterance_words utterance) (\<lambda>ws.
     bind_err (extend_words rest) (\<lambda>more. Inr (ws @ more)))"

definition collect_current_words :: "pyval \<Rightarrow> py_error + pyval list" where
  "collect_current_words msg_result =
     bind_err (py_contains ''utterances'' msg_result) (\<lambda>has_utterances.
       if has_utterances
       then bind_err (py_getitem msg_result ''utterances'') (\<lambda>utterances.
            bind_err (py_iter utterances) extend_words)
       else Inr [])"

text \<open>
  \<^verbatim>\<open>word not in self._last_words\<close>: the members of \<^verbatim>\<open>_last_words\<close> are \<^verbatim>\<open>str\<close>, and
  only a \<^verbatim>\<open>str\<close> equals a \<^verbatim>\<open>str\<close>.
\<close>

fun in_last_words :: "pyval \<Rightarrow> string list \<Rightarrow> bool" where
  "in_last_words (PStr s) last_words = (s \<in> set last_words)"
| "in_last_words v last_words = False"

fun str_of :: "pyval \<Rightarrow> string option" where
  "str_of (PStr s) = Some s"
| "str_of v = None"

text \<open>\<^verbatim>\<open>result.get('payload_sequence', 0)\<close>.\<close>

definition response_sequence :: "response \<Rightarrow> int" where
  "response_sequence result = (case payload_sequence result of None \<Rightarrow> 0 | Some s \<Rightarrow> s)"

definition make_result :: "string \<Rightarrow> pyval \<Rightarrow> client \<Rightarrow> chunk_result" where
  "make_result partial is_fin c =
     \<lparr>error = None, partial_text = partial, is_final = is_fin,
      full_text = self_accumulated_text c, sequence = self_last_sequence c\<rparr>"

text \<open>
  Lines 445-454: the text, the final flag and the current words read from a message that
  has a \<^verbatim>\<open>result\<close>.
\<close>

definition read_message :: "pyval \<Rightarrow> py_error + pyval \<times> pyval \<times> pyval list" where
  "read_message msg =
     bind_err (py_getitem msg ''result'') (\<lambda>msg_result.
     bind_err (py_get msg_result ''text'' (PStr [])) (\<lambda>current_text.
     bind_err (py_get msg ''is_final'' (PBool False)) (\<lambda>is_fin.
     bind_err (collect_current_words msg_result) (\<lambda>current_words.
     Inr (current_text, is_fin, current_words)))))"

text \<open>
  Lines 457-476: the new words, and the attributes assigned. \<^verbatim>\<open>''.join\<close> is the only
  operation here that can raise, and nothing is assigned before it. Where
  \<^verbatim>\<open>_last_words\<close> is assigned, every current word is a \<^verbatim>\<open>str\<close> (the new ones passed
  \<^verbatim>\<open>''.join\<close>, the others equal a member of \<^verbatim>\<open>_last_words\<close>), and
  \<open>List.map_filter str_of\<close> keeps them all. The result is \<^verbatim>\<open>partial_text\<close> and the
  client.
\<close>

definition update_tracker ::
    "client \<Rightarrow> pyval \<Rightarrow> int \<Rightarrow> pyval list \<Rightarrow> py_error + string \<times> client" where
  "update_tracker c current_text current_sequence current_words =
     (if py_truthy current_text \<and> self_last_sequence c < current_sequence then
        (let new_words =
               filter (\<lambda>word. \<not> in_last_words word (self_last_words c)) current_words
         in bind_err
              (if new_words \<noteq> [] then
                 bind_err (py_join new_words) (\<lambda>new_text.
                   Inr (new_text,
                        c\<lparr>self_accumulated_text := current_text,
                          self_last_words := List.map_filter str_of current_words\<rparr>))
               else Inr ([], c))
              (\<lambda>(partial, c).
                 Inr (partial, c\<lparr>self_last_text := current_text,
                                 self_last_sequence := current_sequence\<rparr>)))
      else Inr ([], c))"

text \<open>
  Lines 479-484: the debugging output, six \<^verbatim>\<open>print\<close> calls inside the \<^verbatim>\<open>try\<close>,
  after the attributes have been assigned.
\<close>

definition debug_output ::
    "library \<Rightarrow> int \<Rightarrow> pyval \<Rightarrow> pyval list \<Rightarrow> client \<Rightarrow> string \<Rightarrow> pyval \<Rightarrow> py_error option" where
  "debug_output lib current_sequence current_text current_words c partial is_fin =
     first_error
       [py_print lib (PInt current_sequence),
        py_print lib current_text,
        py_print lib (PList current_words),
        py_print lib (self_accumulated_text c),
        py_print lib (PStr partial),
        py_print lib is_fin]"

text \<open>
  Lines 438-491, from the decoded response to the returned dictionary: the dictionary or
  the exception raised, and the client as these lines leave it. An exception of the
  debugging output comes after the attributes have been assigned.
\<close>

definition extract_result ::
    "library \<Rightarrow> client \<Rightarrow> response \<Rightarrow> (py_error + chunk_result) \<times> client" where
  "extract_result lib c result =
     (case payload_msg result of
        None \<Rightarrow> (Inr (make_result [] (PBool False) c), c)
      | Some msg \<Rightarrow>
          (case py_contains ''result'' msg of
             Inl e \<Rightarrow> (Inl e, c)
           | Inr has_result \<Rightarrow>
               if \<not> has_result then (Inr (make_result [] (PBool False) c), c)
               else
                 (case read_message msg of
                    Inl e \<Rightarrow> (Inl e, c)
                  | Inr (current_text, is_fin, current_words) \<Rightarrow>
                      (let current_sequence = response_sequence result
                       in case update_tracker c current_text current_sequence current_words of
                            Inl e \<Rightarrow> (Inl e, c)
                          | Inr (partial, c) \<Rightarrow>
                              (case debug_output lib current_sequence current_text
                                      current_words c partial is_fin of
                                 Some e \<Rightarrow> (Inl e, c)
                               | None \<Rightarrow> (Inr (make_result partial is_fin c), c))))))"

text \<open>Lines 493-501: the \<^verbatim>\<open>except Exception\<close> clause of \<^verbatim>\<open>process_chunk\<close>.\<close>

definition error_result :: "py_error \<Rightarrow> client \<Rightarrow> chunk_result" where
  "error_result e c =
     \<lparr>error = Some e, partial_text = [], is_final = PBool False,
      full_text = self_accumulated_text c, sequence = self_last_sequence c\<rparr>"

text \<open>
  The \<^verbatim>\<open>try\<close> block of \<^verbatim>\<open>process_chunk\<close> (lines 318-491): the dictionary returned
  or the exception raised, the client as the block leaves it, and the frames sent.
\<close>

definition process_chunk_try ::
    "library \<Rightarrow> network \<Rightarrow> client \<Rightarrow> byte list
       \<Rightarrow> (py_error + chunk_result) \<times> client \<times> sent_frames" where
  "process_chunk_try lib net c audio_bytes =
     (case open_connection lib net c of
        (Some e, c, sent_init) \<Rightarrow>
          (Inl e, c, \<lparr>sent_full_client_request = sent_init, sent_audio_only_request = None\<rparr>)
      | (None, c, sent_init) \<Rightarrow>
          (case send_audio lib net c audio_bytes of
             (Inl e, c, sent_audio) \<Rightarrow>
               (Inl e, c, \<lparr>sent_full_client_request = sent_init,
                            sent_audio_only_request = sent_audio\<rparr>)
           | (Inr result, c, sent_audio) \<Rightarrow>
               (case extract_result lib c result of
                  (x, c) \<Rightarrow>
                    (x, c, \<lparr>sent_full_client_request = sent_init,
                             sent_audio_only_request = sent_audio\<rparr>))))"

text \<open>
  \<^verbatim>\<open>process_chunk\<close>: the \<^verbatim>\<open>try\<close> block under its \<^verbatim>\<open>except Exception\<close> clause, which
  reads the attributes as the block left them.
\<close>

definition process_chunk ::
    "library \<Rightarrow> network \<Rightarrow> client \<Rightarrow> byte list \<Rightarrow> chunk_result \<times> client \<times> sent_frames" where
  "process_chunk lib net c audio_bytes =
     (case process_chunk_try lib net c audio_bytes of
        (Inl e, c, sent) \<Rightarrow> (error_result e c, c, sent)
      | (Inr r, c, sent) \<Rightarrow> (r, c, sent))"

text \<open>
  The tracker: lines 438-491 under the same \<^verbatim>\<open>except\<close> clause, that is, what
  \<^verbatim>\<open>process_chunk\<close> returns and leaves behind once a response has been decoded.
\<close>

definition tracker_step :: "library \<Rightarrow> client \<Rightarrow> response \<Rightarrow> chunk_result \<times> client" where
  "tracker_step lib c result =
     (case extract_result lib c result of
        (Inl e, c) \<Rightarrow> (error_result e c, c)
      | (Inr r, c) \<Rightarrow> (r, c))"

text \<open>
  A session: successive calls on one client, each with its own network behaviour and audio
  bytes. \<open>feed\<close> gives the client after a list of decoded responses, \<open>audio_frames\<close>
  the audio frames a list of calls puts on the socket, in order.
\<close>

fun feed :: "library \<Rightarrow> client \<Rightarrow> response list \<Rightarrow> client" where
  "feed lib c [] = c"
| "feed lib c (result # rest) = feed lib (snd (tracker_step lib c result)) rest"

fun audio_frames :: "library \<Rightarrow> client \<Rightarrow> (network \<times> byte list) list \<Rightarrow> byte list list" where
  "audio_frames lib c [] = []"
| "audio_frames lib c ((net, audio_bytes) # rest) =
     (case process_chunk lib net c audio_bytes of
        (r, c', sent) \<Rightarrow>
          (case sent_audio_only_request sent of None \<Rightarrow> [] | Some f \<Rightarrow> [f])
          @ audio_frames lib c' rest)"

text \<open>The header fields and the sequence number of a frame as sent.\<close>

definition frame_message_type :: "byte list \<Rightarrow> nat" where
  "frame_message_type f = unat (drop_bit 4 (f ! 1))"

definition frame_flags :: "byte list \<Rightarrow> nat" where
  "frame_flags f = unat (f ! 1 AND 0x0f)"

definition frame_sequence :: "byte list \<Rightarrow> int" where
  "frame_sequence f = from_bytes_signed (take 4 (drop 4 f))"

subsection \<open>A concrete library for evaluation\<close>

text \<open>
  An instance of \<open>library\<close> on which the model can be run: compression puts the two
  gzip magic bytes in front, decompression checks and removes them; the UTF-8 codec
  handles ASCII; the JSON codec knows the value \<^verbatim>\<open>null\<close> only; standard output
  is a UTF-8 stream, which writes every text but one with a surrogate code point; the
  float division beyond the exact range is not provided.
\<close>

fun has_surrogate :: "string \<Rightarrow> bool" where
  "has_surrogate (a # b # s) =
     ((of_char a = (0xED :: nat) \<and> (0xA0 :: nat) \<le> of_char b) \<or> has_surrogate (b # s))"
| "has_surrogate s = False"

definition stub_library :: library where
  "stub_library =
     \<lparr>gzip_compress = (\<lambda>b. 0x1f # 0x8b # b),
      gzip_decompress = (\<lambda>b. case b of
          b0 # b1 # rest \<Rightarrow> if b0 = 0x1f \<and> b1 = 0x8b then Inr rest else Inl BadGzipFile
        | _ \<Rightarrow> Inl BadGzipFile),
      utf8_decode = (\<lambda>b. if list_all (\<lambda>x. x < 0x80) b then Inr (map (\<lambda>x. char_of (unat x)) b)
                         else Inl UnicodeDecodeError),
      utf8_encode = map (\<lambda>c. of_nat (of_char c)),
      json_loads = (\<lambda>s. if s = ''null'' then Inr PNone else Inl JSONDecodeError),
      json_dumps = (\<lambda>v. ''null''),
      stdout_encodable = (\<lambda>s. \<not> has_surrogate s),
      float_int_truediv = (\<lambda>a b. Inl OverflowError)\<rparr>"

subsection \<open>A concrete session for evaluation\<close>

text \<open>
  The client that \<^verbatim>\<open>create_asr_client\<close> of the streaming routes builds, a response
  whose message carries the text \<^verbatim>\<open>hello world\<close> as two words under sequence number 2,
  and a network on which the connection opens and every \<^verbatim>\<open>recv\<close> returns a
  \<^verbatim>\<open>SERVER_ACK\<close> frame without body. Then the client as that response leaves it,
  a batch client with the defaults of
  \<^verbatim>\<open>__init__\<close> on a file of raw PCM, a later response that adds the word
  \<^verbatim>\<open>again\<close> under sequence number 3, and a response whose text and only word is the
  surrogate \<^verbatim>\<open>\ud800\<close>.
\<close>

definition demo_client :: client where
  "demo_client = AsrWsClient_init None 100 ''test_user'' ''pcm'' 16000 16 1 ''raw'' 1000"

definition demo_result_fields :: "(string \<times> pyval) list" where
  "demo_result_fields =
     [(''text'', PStr ''hello world''),
      (''utterances'', PList [PDict [(''words'',
          PList [PDict [(''text'', PStr ''hello'')], PDict [(''text'', PStr ''world'')]])]])]"

definition demo_message_fields :: "(string \<times> pyval) list" where
  "demo_message_fields = [(''result'', PDict demo_result_fields)]"

definition demo_response :: response where
  "demo_response =
     \<lparr>is_last_package = False, payload_sequence = Some 2, seq = None, code = None,
      payload_msg = Some (PDict demo_message_fields), payload_size = Some 0\<rparr>"

definition demo_network :: network where
  "demo_network =
     \<lparr>new_reqid = ''0'', connect_error = None, init_send_error = None,
      init_recv = Inr [0x11, 0xb0, 0x00, 0x00, 0, 0, 0, 1],
      audio_send_error = None,
      audio_recv = Inr [0x11, 0xb0, 0x00, 0x00, 0, 0, 0, 2]\<rparr>"

definition demo_heard_client :: client where
  "demo_heard_client =
     demo_client\<lparr>self_accumulated_text := PStr ''hello world'',
       self_last_words := [''hello'', ''world''],
       self_last_text := PStr ''hello world'', self_last_sequence := 2\<rparr>"

definition demo_batch_client :: client where
  "demo_batch_client =
     AsrWsClient_init (Some ''audio.pcm'') 100 ''test'' ''pcm'' 16000 16 1 ''raw'' 1000"

definition demo_later_fields :: "(string \<times> pyval) list" where
  "demo_later_fields =
     [(''text'', PStr ''hello world again''),
      (''utterances'', PList [PDict [(''words'',
          PList [PDict [(''text'', PStr ''hello'')], PDict [(''text'', PStr ''world'')],
                 PDict [(''text'', PStr ''again'')]])]])]"

definition demo_later_response :: response where
  "demo_later_response =
     \<lparr>is_last_package = False, payload_sequence = Some 3, seq = None, code = None,
      payload_msg = Some (PDict [(''result'', PDict demo_later_fields)]),
      payload_size = Some 0\<rparr>"

definition surrogate_text :: string where
  "surrogate_text = map char_of [0xED, 0xA0, 0x80 :: nat]"

definition surrogate_response :: response where
  "surrogate_response =
     \<lparr>is_last_package = False, payload_sequence = Some 2, seq = None, code = None,
      payload_msg = Some (PDict [(''result'', PDict
         [(''text'', PStr surrogate_text),
          (''utterances'', PList [PDict [(''words'',
              PList [PDict [(''text'', PStr surrogate_text)]])]])])]),
      payload_size = Some 0\<rparr>"

subsection \<open>Auxiliary notions for the proofs\<close>

text \<open>
  The sequence number below every audio frame still to come: the counter once a socket
  exists, 0 before. \<open>counter_ok\<close>: the counter, where it exists, is not negative.
\<close>

definition sequence_floor :: "client \<Rightarrow> int" where
  "sequence_floor c =
     (case self_sequence c of None \<Rightarrow> 0 | Some s \<Rightarrow> if self_ws c then s else 0)"

definition counter_ok :: "client \<Rightarrow> bool" where
  "counter_ok c = (case self_sequence c of None \<Rightarrow> True | Some s \<Rightarrow> 0 \<le> s)"

section \<open>Properties of the frame codec\<close>

subsection \<open>Big-endian integers\<close>

lemma from_bytes_unsigned_snoc:
  "from_bytes_unsigned (bs @ [b]) = from_bytes_unsigned bs * 256 + uint b"
  by (simp add: from_bytes_unsigned_def)

lemma length_be_bytes [simp]: "length (be_bytes n v) = n"
  by (induction n arbitrary: v) auto

lemma base256_digit_step:
  "(v::int) div 256 mod 256 ^ n * 256 + v mod 256 = v mod (256 * 256 ^ n)"
proof -
  have "v mod (256 * 256 ^ n) = 256 * (v div 256 mod 256 ^ n) + v mod 256"
    by (rule zmod_zmult2_eq) simp
  then show ?thesis by (simp add: mult.commute)
qed

lemma from_bytes_unsigned_be_bytes: "from_bytes_unsigned (be_bytes n v) = v mod 256 ^ n"
proof (induction n arbitrary: v)
  case 0
  show ?case by (simp add: from_bytes_unsigned_def)
next
  case (Suc n)
  have "uint (word_of_int (v mod 256) :: byte) = v mod 256"
    by (simp add: uint_word_of_int)
  then show ?case using Suc [of "v div 256"] base256_digit_step [of v n]
    by (simp add: from_bytes_unsigned_snoc)
qed

lemma from_bytes_signed_be_bytes4:
  assumes "- (2 ^ 31) \<le> v" and "v < 2 ^ 31"
  shows "from_bytes_signed (be_bytes 4 v) = v"
proof -
  have ne: "be_bytes 4 v \<noteq> []" using length_be_bytes [of 4 v] by fastforce
  have u: "from_bytes_unsigned (be_bytes 4 v) = v mod 4294967296"
    using from_bytes_unsigned_be_bytes [of 4 v] by simp
  show ?thesis
  proof (cases "0 \<le> v")
    case True
    then have "v mod 4294967296 = v" using assms by simp
    then show ?thesis using ne u assms True by (simp add: from_bytes_signed_def Let_def)
  next
    case False
    have "(v + 4294967296) mod 4294967296 = v + 4294967296"
      using assms False by (intro mod_pos_pos_trivial) auto
    then have "v mod 4294967296 = v + 4294967296" by simp
    then show ?thesis using ne u assms False by (simp add: from_bytes_signed_def Let_def)
  qed
qed

subsection \<open>Malformed input\<close>

text \<open>
  C3 (as the claim states it, refuted). A \<^verbatim>\<open>FULL_SERVER_RESPONSE\<close> frame that declares
  a payload of 5 bytes and carries 1 byte is decoded without any error: the result holds
  the one byte and the declared size 5.
\<close>

theorem oversized_declared_size_counterexample:
  "parse_response stub_library [0x11, 0x90, 0x00, 0x00, 0, 0, 0, 5, 0x41] =
     Inr \<lparr>is_last_package = False, payload_sequence = None, seq = None, code = None,
          payload_msg = Some (PBytes [0x41]), payload_size = Some 5\<rparr>"
  by (simp add: parse_response_def protocol_constants from_bytes_signed_def
        from_bytes_unsigned_def bind_err_def)

text \<open>
  C3 (amended). \<^verbatim>\<open>parse_response\<close> has no \<^verbatim>\<open>MalformedFrame\<close> result. On fewer than four
  bytes it raises \<^verbatim>\<open>IndexError\<close>, which leaves the function. A declared size is never
  compared with the buffer: every input of at least four bytes whose third byte declares
  neither serialization nor compression is decoded to a result, whatever it declares.
\<close>

theorem parse_response_short_or_unchecked:
  "(length res < 4 \<longrightarrow> parse_response lib res = Inl IndexError) \<and>
   (4 \<le> length res \<and> res ! 2 = 0 \<longrightarrow> (\<exists>r. parse_response lib res = Inr r))"
  by (auto simp: parse_response_def Let_def bind_err_def protocol_constants
        split: if_splits sum.splits option.splits prod.splits)

theorem parse_response_short_or_unchecked_witness:
  "parse_response stub_library [0x11, 0x90, 0x00] = Inl IndexError \<and>
   (\<exists>r. parse_response stub_library [0x11, 0xf0, 0x00, 0x00, 0, 0, 0, 1, 0xff, 0xff, 0xff, 0xff]
          = Inr r)"
  using parse_response_short_or_unchecked [of "[0x11, 0x90, 0x00]" stub_library]
    parse_response_short_or_unchecked
      [of "[0x11, 0xf0, 0x00, 0x00, 0, 0, 0, 1, 0xff, 0xff, 0xff, 0xff]" stub_library]
  by simp

subsection \<open>Terminal detection\<close>

text \<open>
  C5. Whenever \<^verbatim>\<open>parse_response\<close> returns a result for a frame whose flags nibble (the
  low four bits of the second byte) has bit 1 set, \<^verbatim>\<open>is_last_package\<close> is true in it;
  the message type plays no part.
\<close>

theorem terminal_flag_sets_is_last_package:
  assumes "parse_response lib res = Inr r" and "(res ! 1 AND 0x0f) AND 0x02 \<noteq> 0"
  shows "is_last_package r"
  using assms
  by (auto simp: parse_response_def Let_def bind_err_def
        split: if_splits sum.splits option.splits prod.splits)

theorem terminal_flag_sets_is_last_package_witness:
  "parse_response stub_library [0x11, 0x23, 0x11, 0x00, 0xff, 0xff, 0xff, 0xfe] =
     Inr \<lparr>is_last_package = True, payload_sequence = Some (- 2), seq = None, code = None,
          payload_msg = None, payload_size = None\<rparr> \<and>
   ([0x11, 0x23, 0x11, 0x00, 0xff, 0xff, 0xff, 0xfe] ! 1 AND (0x0f :: byte)) AND 0x02 \<noteq> 0 \<and>
   is_last_package \<lparr>is_last_package = True, payload_sequence = Some (- 2), seq = None,
          code = None, payload_msg = None, payload_size = None\<rparr>"
proof -
  let ?res = "[0x11, 0x23, 0x11, 0x00, 0xff, 0xff, 0xff, 0xfe] :: byte list"
  let ?r = "\<lparr>is_last_package = True, payload_sequence = Some (- 2), seq = None,
          code = None, payload_msg = None, payload_size = None\<rparr>"
  have h1: "parse_response stub_library ?res = Inr ?r"
    by (simp add: parse_response_def protocol_constants from_bytes_signed_def
          from_bytes_unsigned_def bind_err_def)
  have h2: "(?res ! 1 AND 0x0f) AND 0x02 \<noteq> 0" by simp
  from terminal_flag_sets_is_last_package [OF h1 h2] h1 h2 show ?thesis by simp
qed

subsection \<open>Declared size and body length\<close>

text \<open>
  C6 (as the claim states it, refuted). A \<^verbatim>\<open>FULL_SERVER_RESPONSE\<close> frame that declares
  2 bytes and carries 3 is decoded to a result that holds the 3 bytes: no decode error,
  no empty body.
\<close>

theorem size_mismatch_counterexample:
  "parse_response stub_library [0x11, 0x90, 0x00, 0x00, 0, 0, 0, 2, 1, 2, 3] =
     Inr \<lparr>is_last_package = False, payload_sequence = None, seq = None, code = None,
          payload_msg = Some (PBytes [1, 2, 3]), payload_size = Some 2\<rparr>"
  by (simp add: parse_response_def protocol_constants from_bytes_signed_def
        from_bytes_unsigned_def bind_err_def)

text \<open>
  C6 (amended). For every \<^verbatim>\<open>FULL_SERVER_RESPONSE\<close> frame, whatever its header size,
  flags, serialization and compression, decoding compares nothing with the declared size.
  The bytes after the four-byte size field, all of them, are the body; whenever they
  decompress and deserialize, as the header says, to a message, the result holds that
  message, and \<^verbatim>\<open>payload_size\<close> is the size field read as a signed big-endian integer,
  whether or not it equals the length of the body.
\<close>

theorem full_server_response_body_unchecked:
  assumes "4 \<le> length res"
      and "frame_message_type res = FULL_SERVER_RESPONSE"
      and "region = drop (unat (res ! 0 AND 0x0f) * 4) res"
      and "rest = (if (res ! 1 AND 0x0f) AND 0x01 \<noteq> 0 then drop 4 region else region)"
      and "(if unat (res ! 2 AND 0x0f) = GZIP then gzip_decompress lib (drop 4 rest)
            else Inr (drop 4 rest)) = Inr body"
      and "(if unat (drop_bit 4 (res ! 2)) = JSON
            then bind_err (utf8_decode lib body) (json_loads lib)
            else if unat (drop_bit 4 (res ! 2)) \<noteq> NO_SERIALIZATION
            then bind_err (utf8_decode lib body) (\<lambda>s. Inr (PStr s))
            else Inr (PBytes body)) = Inr msg"
  shows "\<exists>r. parse_response lib res = Inr r \<and> payload_msg r = Some msg \<and>
             payload_size r = Some (from_bytes_signed (take 4 rest))"
  using assms
  by (auto simp: parse_response_def frame_message_type_def Let_def bind_err_def
        protocol_constants split: if_splits sum.splits)

theorem full_server_response_body_unchecked_witness:
  "\<exists>r. parse_response stub_library
          [0x11, 0x91, 0x11, 0x00, 0, 0, 0, 2, 0, 0, 0, 99, 0x1f, 0x8b, 0x6e, 0x75, 0x6c, 0x6c]
          = Inr r \<and>
       payload_msg r = Some PNone \<and> payload_size r = Some 99"
proof -
  let ?res = "[0x11, 0x91, 0x11, 0x00, 0, 0, 0, 2, 0, 0, 0, 99, 0x1f, 0x8b, 0x6e, 0x75, 0x6c, 0x6c] :: byte list"
  let ?rest = "[0, 0, 0, 99, 0x1f, 0x8b, 0x6e, 0x75, 0x6c, 0x6c] :: byte list"
  have h1: "4 \<le> length ?res" by simp
  have h2: "frame_message_type ?res = FULL_SERVER_RESPONSE"
    by (simp add: frame_message_type_def protocol_constants)
  have h3: "[0, 0, 0, 2, 0, 0, 0, 99, 0x1f, 0x8b, 0x6e, 0x75, 0x6c, 0x6c] =
            drop (unat (?res ! 0 AND 0x0f) * 4) ?res" by simp
  have h4: "?rest = (if (?res ! 1 AND 0x0f) AND 0x01 \<noteq> 0
                     then drop 4 [0, 0, 0, 2, 0, 0, 0, 99, 0x1f, 0x8b, 0x6e, 0x75, 0x6c, 0x6c]
                     else [0, 0, 0, 2, 0, 0, 0, 99, 0x1f, 0x8b, 0x6e, 0x75, 0x6c, 0x6c])" by simp
  have h5: "(if unat (?res ! 2 AND 0x0f) = GZIP then gzip_decompress stub_library (drop 4 ?rest)
            else Inr (drop 4 ?rest)) = Inr [0x6e, 0x75, 0x6c, 0x6c]"
    by (simp add: stub_library_def protocol_constants)
  have h6: "(if unat (drop_bit 4 (?res ! 2)) = JSON
            then bind_err (utf8_decode stub_library [0x6e, 0x75, 0x6c, 0x6c]) (json_loads stub_library)
            else if unat (drop_bit 4 (?res ! 2)) \<noteq> NO_SERIALIZATION
            then bind_err (utf8_decode stub_library [0x6e, 0x75, 0x6c, 0x6c]) (\<lambda>s. Inr (PStr s))
            else Inr (PBytes [0x6e, 0x75, 0x6c, 0x6c])) = Inr PNone"
    by (simp add: stub_library_def protocol_constants bind_err_def char_of_def bit_Suc_0_iff)
  have sz: "from_bytes_signed (take 4 ?rest) = 99"
    by (simp add: from_bytes_signed_def from_bytes_unsigned_def)
  from full_server_response_body_unchecked [OF h1 h2 h3 h4 h5 h6] sz show ?thesis by simp
qed

subsection \<open>Round trip\<close>

lemma be_bytes_numeral:
  "be_bytes (numeral k) v = be_bytes (pred_numeral k) (v div 256) @ [word_of_int (v mod 256)]"
  by (simp add: numeral_eq_Suc)







section \<open>Properties of the batch mode\<close>

text \<open>
  C4. For a client with an audio file of format \<^verbatim>\<open>pcm\<close>, rate 16000, 16-bit samples,
  one channel and segments of 100 ms, the segment size is to be 3200 bytes.
  \<^verbatim>\<open>execute\<close> computes 6400, whatever the file holds: it divides by 500 where the
  \<^verbatim>\<open>wav\<close> branch of the same function, on a file with the same parameters, divides by
  1000 and gives 3200.
\<close>

theorem pcm_segment_size_is_doubled:
  "execute_segment_size lib demo_batch_client (Inr audio_data) wav_info = Inr (Some 6400) \<and>
   execute_segment_size lib (demo_batch_client\<lparr>self_format := ''wav''\<rparr>) (Inr audio_data)
     (Inr (1, 2, 16000)) = Inr (Some 3200)"
  by (simp add: execute_segment_size_def demo_batch_client_def AsrWsClient_init_def
        int_truediv_def bind_err_def)

section \<open>Properties of the incremental result\<close>

lemma py_print_error: "py_print lib v = Some e \<Longrightarrow> e = UnicodeEncodeError"
  by (auto simp: py_print_def split: pyval.splits if_splits)

lemma debug_output_error:
  "debug_output lib sq t ws c p f = Some e \<Longrightarrow> e = UnicodeEncodeError"
proof -
  have fe: "first_error es = Some e \<Longrightarrow> \<forall>x\<in>set es. \<forall>e'. x = Some e' \<longrightarrow> e' = UnicodeEncodeError
          \<Longrightarrow> e = UnicodeEncodeError" for es
    by (induction es rule: first_error.induct) auto
  assume "debug_output lib sq t ws c p f = Some e"
  then show ?thesis
    unfolding debug_output_def
    by (rule fe) (auto dest: py_print_error)
qed

lemma new_words_joined:
  "py_join (filter (\<lambda>word. \<not> in_last_words word lw) ws) = Inr s \<Longrightarrow>
   ws = map PStr (List.map_filter str_of ws) \<and>
   s = concat (filter (\<lambda>w. w \<notin> set lw) (List.map_filter str_of ws))"
proof (induction ws arbitrary: s)
  case Nil
  then show ?case by simp
next
  case (Cons v ws)
  show ?case
  proof (cases v)
    case (PStr x)
    then show ?thesis using Cons
      by (cases "x \<in> set lw") (auto simp: bind_err_def split: sum.splits)
  qed (use Cons in auto)
qed

lemma update_tracker_cases:
  assumes "update_tracker c t sq ws = Inr (p, c')"
  shows "(c' = c \<and> p = [] \<and> \<not> (py_truthy t \<and> self_last_sequence c < sq)) \<or>
         (py_truthy t \<and> self_last_sequence c < sq \<and> self_last_sequence c' = sq \<and>
          self_sequence c' = self_sequence c \<and> self_ws c' = self_ws c \<and>
          (p = [] \<and> self_accumulated_text c' = self_accumulated_text c \<and> self_last_words c' = self_last_words c
           \<or> ws = map PStr (List.map_filter str_of ws) \<and>
             p = concat (filter (\<lambda>w. w \<notin> set (self_last_words c)) (List.map_filter str_of ws)) \<and>
             self_accumulated_text c' = t \<and> self_last_words c' = List.map_filter str_of ws))"
proof (cases "py_truthy t \<and> self_last_sequence c < sq")
  case False
  then show ?thesis using assms by (auto simp: update_tracker_def)
next
  case True
  let ?nw = "filter (\<lambda>word. \<not> in_last_words word (self_last_words c)) ws"
  show ?thesis
  proof (cases "?nw = []")
    case e: True
    then show ?thesis using assms True by (auto simp: update_tracker_def bind_err_def Let_def)
  next
    case ne: False
    from assms True ne obtain s where j: "py_join ?nw = Inr s"
      and r: "p = s" "c' = c\<lparr>self_accumulated_text := t,
                          self_last_words := List.map_filter str_of ws,
                          self_last_text := t, self_last_sequence := sq\<rparr>"
      by (auto simp: update_tracker_def bind_err_def Let_def split: sum.splits)
    from new_words_joined[OF j] r True show ?thesis by auto
  qed
qed

lemma extract_result_cases:
  assumes "extract_result lib c result = (x, c')"
  shows "(c' = c \<and> (\<forall>r. x = Inr r \<longrightarrow> partial_text r = [])) \<or>
         (\<exists>msg t fin ws p.
            payload_msg result = Some msg \<and> read_message msg = Inr (t, fin, ws) \<and>
            update_tracker c t (response_sequence result) ws = Inr (p, c') \<and>
            (x = Inl UnicodeEncodeError \<or>
             x = Inr (make_result p fin c') \<and>
             debug_output lib (response_sequence result) t ws c' p fin = None))"
proof (cases "payload_msg result")
  case None
  then show ?thesis using assms by (auto simp: extract_result_def make_result_def)
next
  case (Some msg)
  show ?thesis
  proof (cases "py_contains ''result'' msg")
    case (Inl e)
    then show ?thesis using assms Some by (auto simp: extract_result_def)
  next
    case (Inr has)
    show ?thesis
    proof (cases has)
      case False
      then show ?thesis using assms Some Inr by (auto simp: extract_result_def make_result_def)
    next
      case True
      show ?thesis
      proof (cases "read_message msg")
        case (Inl e)
        then show ?thesis using assms Some Inr True by (auto simp: extract_result_def)
      next
        case rm: (Inr tfw)
        obtain t fin ws where tfw: "tfw = (t, fin, ws)" by (cases tfw)
        show ?thesis
        proof (cases "update_tracker c t (response_sequence result) ws")
          case (Inl e)
          then show ?thesis using assms Some Inr True rm tfw
            by (auto simp: extract_result_def Let_def)
        next
          case ut: (Inr pc)
          obtain p c1 where pc: "pc = (p, c1)" by (cases pc)
          show ?thesis
          proof (cases "debug_output lib (response_sequence result) t ws c1 p fin")
            case None
            then have "x = Inr (make_result p fin c1)" "c' = c1"
              using assms Some Inr True rm tfw ut pc by (auto simp: extract_result_def Let_def)
            then show ?thesis using Some rm tfw ut pc None by auto
          next
            case (Some e)
            then have "x = Inl e" "c' = c1"
              using assms \<open>payload_msg result = Some msg\<close> Inr True rm tfw ut pc
              by (auto simp: extract_result_def Let_def)
            moreover have "e = UnicodeEncodeError" using Some by (rule debug_output_error)
            ultimately show ?thesis using \<open>payload_msg result = Some msg\<close> rm tfw ut pc by auto
          qed
        qed
      qed
    qed
  qed
qed

lemma tracker_step_result:
  "tracker_step lib c result = (r, c') \<Longrightarrow>
   \<exists>x. extract_result lib c result = (x, c') \<and>
       (case x of Inl e \<Rightarrow> r = error_result e c' | Inr r' \<Rightarrow> r = r')"
  by (auto simp: tracker_step_def split: prod.splits sum.splits)

lemma tracker_step_sequence:
  assumes "tracker_step lib c result = (r, c')"
  shows "(c' = c \<and> partial_text r = []) \<or>
         (self_last_sequence c < response_sequence result \<and>
          self_last_sequence c' = response_sequence result)"
proof -
  from tracker_step_result[OF assms] obtain x where
    x: "extract_result lib c result = (x, c')"
    and r: "case x of Inl e \<Rightarrow> r = error_result e c' | Inr r' \<Rightarrow> r = r'" by blast
  from extract_result_cases[OF x] show ?thesis
  proof
    assume "c' = c \<and> (\<forall>r. x = Inr r \<longrightarrow> partial_text r = [])"
    then show ?thesis using r by (cases x) (auto simp: error_result_def)
  next
    assume "\<exists>msg t fin ws p.
            payload_msg result = Some msg \<and> read_message msg = Inr (t, fin, ws) \<and>
            update_tracker c t (response_sequence result) ws = Inr (p, c') \<and>
            (x = Inl UnicodeEncodeError \<or>
             x = Inr (make_result p fin c') \<and>
             debug_output lib (response_sequence result) t ws c' p fin = None)"
    then obtain t ws p fin where ut: "update_tracker c t (response_sequence result) ws = Inr (p, c')"
      and xx: "x = Inl UnicodeEncodeError \<or> x = Inr (make_result p fin c')" by blast
    from update_tracker_cases[OF ut] xx r show ?thesis
      by (auto simp: error_result_def make_result_def)
  qed
qed

lemma tracker_step_no_delta:
  assumes "\<not> self_last_sequence c < response_sequence result"
      and "tracker_step lib c result = (r, c')"
  shows "partial_text r = [] \<and> c' = c"
  using tracker_step_sequence[OF assms(2)] assms(1) by auto

lemma tracker_step_sequence_mono:
  "self_last_sequence c \<le> self_last_sequence (snd (tracker_step lib c result))"
  using tracker_step_sequence[of lib c result "fst (tracker_step lib c result)"
          "snd (tracker_step lib c result)"]
  by auto

lemma feed_sequence_mono: "self_last_sequence c \<le> self_last_sequence (feed lib c results)"
proof (induction results arbitrary: c)
  case Nil
  show ?case by simp
next
  case (Cons result rest)
  have "self_last_sequence c \<le> self_last_sequence (snd (tracker_step lib c result))"
    by (rule tracker_step_sequence_mono)
  also have "\<dots> \<le> self_last_sequence (feed lib (snd (tracker_step lib c result)) rest)"
    by (rule Cons.IH)
  finally show ?case by simp
qed

lemma read_message_words:
  "read_message msg = Inr (t, fin, ws) \<Longrightarrow>
   \<exists>res. py_getitem msg ''result'' = Inr res \<and> collect_current_words res = Inr ws"
  by (auto simp: read_message_def bind_err_def split: sum.splits)

lemma tracker_step_delta:
  assumes "tracker_step lib c result = (r, c')"
  shows "partial_text r = [] \<or>
         (\<exists>msg res cw.
            payload_msg result = Some msg \<and> py_getitem msg ''result'' = Inr res \<and>
            collect_current_words res = Inr (map PStr cw) \<and>
            partial_text r = concat (filter (\<lambda>w. w \<notin> set (self_last_words c)) cw))"
proof -
  from tracker_step_result[OF assms] obtain x where
    x: "extract_result lib c result = (x, c')"
    and r: "case x of Inl e \<Rightarrow> r = error_result e c' | Inr r' \<Rightarrow> r = r'" by blast
  from extract_result_cases[OF x] show ?thesis
  proof
    assume "c' = c \<and> (\<forall>r. x = Inr r \<longrightarrow> partial_text r = [])"
    then show ?thesis using r by (cases x) (auto simp: error_result_def)
  next
    assume "\<exists>msg t fin ws p.
            payload_msg result = Some msg \<and> read_message msg = Inr (t, fin, ws) \<and>
            update_tracker c t (response_sequence result) ws = Inr (p, c') \<and>
            (x = Inl UnicodeEncodeError \<or>
             x = Inr (make_result p fin c') \<and>
             debug_output lib (response_sequence result) t ws c' p fin = None)"
    then obtain msg t ws p fin where pm: "payload_msg result = Some msg"
      and rm: "read_message msg = Inr (t, fin, ws)"
      and ut: "update_tracker c t (response_sequence result) ws = Inr (p, c')"
      and xx: "x = Inl UnicodeEncodeError \<or> x = Inr (make_result p fin c')" by blast
    from read_message_words[OF rm] obtain res where
      res: "py_getitem msg ''result'' = Inr res" "collect_current_words res = Inr ws" by blast
    from xx r have pr: "partial_text r = [] \<or> partial_text r = p"
      by (auto simp: error_result_def make_result_def)
    from update_tracker_cases[OF ut]
    have "p = [] \<or> (ws = map PStr (List.map_filter str_of ws) \<and>
             p = concat (filter (\<lambda>w. w \<notin> set (self_last_words c)) (List.map_filter str_of ws)))"
      by auto
    then show ?thesis
    proof
      assume "p = []"
      with pr show ?thesis by auto
    next
      assume a: "ws = map PStr (List.map_filter str_of ws) \<and>
             p = concat (filter (\<lambda>w. w \<notin> set (self_last_words c)) (List.map_filter str_of ws))"
      show ?thesis
      proof (cases "partial_text r = []")
        case True then show ?thesis by simp
      next
        case False
        with pr have "partial_text r = p" by simp
        moreover from a res have "collect_current_words res = Inr (map PStr (List.map_filter str_of ws))"
          by simp
        ultimately show ?thesis using pm res(1) a by blast
      qed
    qed
  qed
qed

text \<open>
  C2. Over every list of decoded responses \<^verbatim>\<open>_last_sequence\<close> does not decrease, and
  neither does it in one step. A response whose sequence number is not greater than
  \<^verbatim>\<open>_last_sequence\<close> gives an empty \<^verbatim>\<open>partial_text\<close> and leaves
  \<^verbatim>\<open>_accumulated_text\<close>, \<^verbatim>\<open>_last_words\<close> and \<^verbatim>\<open>_last_sequence\<close> as they were.
  A returned \<^verbatim>\<open>partial_text\<close> that is not empty is the concatenation, in order, of
  exactly those words of the response that are not members of \<^verbatim>\<open>_last_words\<close> as it
  was when the call began: no word already there is in it.
\<close>

theorem tracker_monotone_and_fresh:
  "self_last_sequence c \<le> self_last_sequence (feed lib c results) \<and>
   self_last_sequence c \<le> self_last_sequence (snd (tracker_step lib c result)) \<and>
   (\<not> self_last_sequence c < response_sequence result \<longrightarrow>
      partial_text (fst (tracker_step lib c result)) = [] \<and>
      self_accumulated_text (snd (tracker_step lib c result)) = self_accumulated_text c \<and>
      self_last_words (snd (tracker_step lib c result)) = self_last_words c \<and>
      self_last_sequence (snd (tracker_step lib c result)) = self_last_sequence c) \<and>
   (partial_text (fst (tracker_step lib c result)) = [] \<or>
    (\<exists>msg res cw.
        payload_msg result = Some msg \<and> py_getitem msg ''result'' = Inr res \<and>
        collect_current_words res = Inr (map PStr cw) \<and>
        partial_text (fst (tracker_step lib c result)) =
          concat (filter (\<lambda>w. w \<notin> set (self_last_words c)) cw)))"
proof -
  have "\<not> self_last_sequence c < response_sequence result \<Longrightarrow>
      partial_text (fst (tracker_step lib c result)) = [] \<and> snd (tracker_step lib c result) = c"
    using tracker_step_no_delta[of c result lib "fst (tracker_step lib c result)"
            "snd (tracker_step lib c result)"]
    by simp
  then show ?thesis
    using feed_sequence_mono[of c lib results] tracker_step_sequence_mono[of c lib result]
      tracker_step_delta[of lib c result "fst (tracker_step lib c result)"
            "snd (tracker_step lib c result)"]
    by auto
qed

lemmas tracker_evaluation =
  tracker_step_def extract_result_def read_message_def update_tracker_def debug_output_def
  py_print_def collect_current_words_def utterance_words_def response_sequence_def
  make_result_def error_result_def bind_err_def Let_def

theorem tracker_monotone_and_fresh_witness:
  "\<not> self_last_sequence demo_client
       < response_sequence (demo_response\<lparr>payload_sequence := None\<rparr>) \<and>
   partial_text (fst (tracker_step stub_library demo_client
                        (demo_response\<lparr>payload_sequence := None\<rparr>))) = [] \<and>
   self_last_words (snd (tracker_step stub_library demo_client
                           (demo_response\<lparr>payload_sequence := None\<rparr>)))
     = self_last_words demo_client \<and>
   self_last_sequence demo_client
     \<le> self_last_sequence (feed stub_library demo_client [demo_response, demo_response]) \<and>
   partial_text (fst (tracker_step stub_library demo_heard_client demo_later_response))
     = ''again'' \<and>
   (\<exists>msg res cw.
       payload_msg demo_later_response = Some msg \<and> py_getitem msg ''result'' = Inr res \<and>
       collect_current_words res = Inr (map PStr cw) \<and>
       ''again'' = concat (filter (\<lambda>w. w \<notin> set [''hello'', ''world'']) cw))"
proof -
  have h: "\<not> self_last_sequence demo_client
             < response_sequence (demo_response\<lparr>payload_sequence := None\<rparr>)"
    by (simp add: demo_client_def AsrWsClient_init_def demo_response_def response_sequence_def)
  have ev: "partial_text (fst (tracker_step stub_library demo_heard_client demo_later_response))
              = ''again''"
    by (simp add: tracker_evaluation demo_heard_client_def demo_client_def AsrWsClient_init_def
          demo_later_response_def demo_later_fields_def stub_library_def)
  have lw: "self_last_words demo_heard_client = [''hello'', ''world'']"
    by (simp add: demo_heard_client_def)
  note old = tracker_monotone_and_fresh
               [of demo_client stub_library "[demo_response, demo_response]"
                   "demo_response\<lparr>payload_sequence := None\<rparr>"]
  note new = tracker_monotone_and_fresh
               [of demo_heard_client stub_library "[]" demo_later_response,
                unfolded ev lw]
  from old h have first: "partial_text (fst (tracker_step stub_library demo_client
                        (demo_response\<lparr>payload_sequence := None\<rparr>))) = [] \<and>
      self_last_words (snd (tracker_step stub_library demo_client
                           (demo_response\<lparr>payload_sequence := None\<rparr>)))
        = self_last_words demo_client \<and>
      self_last_sequence demo_client
        \<le> self_last_sequence (feed stub_library demo_client [demo_response, demo_response])"
    by blast
  from new have second: "\<exists>msg res cw.
       payload_msg demo_later_response = Some msg \<and> py_getitem msg ''result'' = Inr res \<and>
       collect_current_words res = Inr (map PStr cw) \<and>
       ''again'' = concat (filter (\<lambda>w. w \<notin> set [''hello'', ''world'']) cw)"
    by simp
  from h first ev second show ?thesis by blast
qed

text \<open>
  When the debugging output can be written, a response with a true text, a greater sequence
  number and new words among its words is taken over as lines 457-476 say.
\<close>

lemma map_filter_str_of_PStr: "List.map_filter str_of (map PStr ws) = ws"
  by (induction ws) simp_all

lemma py_join_PStr: "py_join (map PStr ws) = Inr (concat ws)"
  by (induction ws) (simp_all add: bind_err_def)

lemma filter_new_PStr:
  "filter (\<lambda>word. \<not> in_last_words word lw) (map PStr ws) = map PStr (filter (\<lambda>w. w \<notin> set lw) ws)"
  by (induction ws) simp_all

lemma tracker_accepts_writable_words:
  assumes "payload_msg result = Some (PDict msg)"
      and "map_of msg ''result'' = Some (PDict res)"
      and "map_of res ''text'' = Some current_text"
      and "py_truthy current_text"
      and "self_last_sequence c < response_sequence result"
      and "collect_current_words (PDict res) = Inr (map PStr current_words)"
      and "new_words = filter (\<lambda>w. w \<notin> set (self_last_words c)) current_words"
      and "new_words \<noteq> []"
      and "fin = (case map_of msg ''is_final'' of None \<Rightarrow> PBool False | Some v \<Rightarrow> v)"
      and "c' = c\<lparr>self_accumulated_text := current_text, self_last_words := current_words,
                  self_last_text := current_text,
                  self_last_sequence := response_sequence result\<rparr>"
      and "debug_output lib (response_sequence result) current_text (map PStr current_words)
             c' (concat new_words) fin = None"
  shows "tracker_step lib c result =
     (\<lparr>error = None, partial_text = concat new_words, is_final = fin,
       full_text = current_text, sequence = response_sequence result\<rparr>, c')"
proof -
  have k: "''result'' \<in> fst ` set msg"
    using assms(2) by (metis map_of_eq_None_iff option.distinct(1))
  have rm: "read_message (PDict msg) = Inr (current_text, fin, map PStr current_words)"
    using assms(2,3,6,9) by (simp add: read_message_def bind_err_def)
  have ut: "update_tracker c current_text (response_sequence result) (map PStr current_words)
              = Inr (concat new_words, c')"
    using assms(4,5,7,8,10)
    by (simp add: update_tracker_def bind_err_def Let_def filter_new_PStr py_join_PStr
          map_filter_str_of_PStr)
  show ?thesis
    using assms(1,11) k rm ut
    by (simp add: tracker_step_def extract_result_def Let_def make_result_def assms(10))
qed

text \<open>
  C7. The response carries a non-empty text, the sequence number 2 above
  \<^verbatim>\<open>_last_sequence\<close> = 0 and one word, which is new; the text is the surrogate
  \<^verbatim>\<open>\ud800\<close>. The attributes are assigned as they should be, then the debugging output
  of the text raises \<^verbatim>\<open>UnicodeEncodeError\<close> inside the \<^verbatim>\<open>try\<close>, and the call returns
  the error dictionary with an empty \<^verbatim>\<open>partial_text\<close> instead of the new word.
\<close>

theorem tracker_debug_output_loses_delta:
  "py_truthy (PStr surrogate_text) \<and>
   self_last_sequence demo_client < response_sequence surrogate_response \<and>
   filter (\<lambda>w. w \<notin> set (self_last_words demo_client)) [surrogate_text] = [surrogate_text] \<and>
   tracker_step stub_library demo_client surrogate_response =
     (\<lparr>error = Some UnicodeEncodeError, partial_text = [], is_final = PBool False,
       full_text = PStr surrogate_text, sequence = 2\<rparr>,
      demo_client\<lparr>self_accumulated_text := PStr surrogate_text,
        self_last_words := [surrogate_text],
        self_last_text := PStr surrogate_text, self_last_sequence := 2\<rparr>)"
  by (simp add: tracker_step_def extract_result_def read_message_def update_tracker_def
        debug_output_def py_print_def collect_current_words_def utterance_words_def
        response_sequence_def surrogate_response_def surrogate_text_def demo_client_def
        AsrWsClient_init_def stub_library_def error_result_def bind_err_def Let_def
        char_of_def bit_Suc_0_iff)

text \<open>
  C8. The same decoded response given to the tracker twice in succession: the second call
  returns an empty \<^verbatim>\<open>partial_text\<close> and leaves \<^verbatim>\<open>_accumulated_text\<close> as the first
  call left it.
\<close>

theorem tracker_same_response_twice:
  "partial_text (fst (tracker_step lib (snd (tracker_step lib c result)) result)) = [] \<and>
   self_accumulated_text (snd (tracker_step lib (snd (tracker_step lib c result)) result)) =
     self_accumulated_text (snd (tracker_step lib c result))"
proof -
  obtain r1 c1 where s1: "tracker_step lib c result = (r1, c1)"
    by (cases "tracker_step lib c result")
  obtain r2 c2 where s2: "tracker_step lib c1 result = (r2, c2)"
    by (cases "tracker_step lib c1 result")
  from tracker_step_sequence[OF s1] have "partial_text r2 = [] \<and> c2 = c1"
  proof
    assume "c1 = c \<and> partial_text r1 = []"
    with s1 s2 show ?thesis by simp
  next
    assume "self_last_sequence c < response_sequence result \<and>
            self_last_sequence c1 = response_sequence result"
    then have "\<not> self_last_sequence c1 < response_sequence result" by simp
    from tracker_step_no_delta[OF this s2] show ?thesis .
  qed
  then show ?thesis using s1 s2 by simp
qed

section \<open>Properties of the live path\<close>

lemma generate_header_audio:
  "generate_header AUDIO_ONLY_REQUEST POS_SEQUENCE JSON GZIP 0 = Inr [0x11, 0x21, 0x11, 0x00]"
  by (simp add: generate_header_def append_byte_def bind_err_def protocol_constants)

lemma build_frame_audio:
  assumes "build_frame AUDIO_ONLY_REQUEST POS_SEQUENCE JSON GZIP sq pl = Inr f"
  shows "f = [0x11, 0x21, 0x11, 0x00] @ be_bytes 4 sq @ be_bytes 4 (int (length pl)) @ pl \<and>
         - (2 ^ 31) \<le> sq \<and> sq < 2 ^ 31"
  using assms
  by (auto simp: build_frame_def generate_header_audio generate_before_payload_def
      to_bytes_signed_def to_bytes_unsigned_def bind_err_def split: if_splits)

lemma audio_frame_fields:
  assumes "build_frame AUDIO_ONLY_REQUEST POS_SEQUENCE JSON GZIP sq pl = Inr f"
  shows "frame_message_type f = AUDIO_ONLY_REQUEST \<and> frame_flags f = POS_SEQUENCE \<and>
         frame_sequence f = sq"
proof -
  from build_frame_audio[OF assms] have
    f: "f = [0x11, 0x21, 0x11, 0x00] @ be_bytes 4 sq @ be_bytes 4 (int (length pl)) @ pl"
    and r: "- (2 ^ 31) \<le> sq" "sq < 2 ^ 31" by simp_all
  have "frame_sequence f = from_bytes_signed (be_bytes 4 sq)"
    unfolding frame_sequence_def f by simp
  then have "frame_sequence f = sq" using from_bytes_signed_be_bytes4[OF r] by simp
  moreover have "frame_message_type f = AUDIO_ONLY_REQUEST"
    unfolding f frame_message_type_def by (simp add: protocol_constants)
  moreover have "frame_flags f = POS_SEQUENCE"
    unfolding f frame_flags_def by (simp add: protocol_constants)
  ultimately show ?thesis by simp
qed


lemma open_connection_keeps_tracker:
  assumes "open_connection lib net c = (eo, c1, s)"
  shows "self_accumulated_text c1 = self_accumulated_text c \<and>
         self_last_sequence c1 = self_last_sequence c \<and>
         self_last_words c1 = self_last_words c"
  using assms
  by (auto simp: open_connection_def Let_def split: if_splits option.splits prod.splits)

lemma send_audio_keeps_tracker:
  assumes "send_audio lib net c audio_bytes = (res, c1, s)"
  shows "self_accumulated_text c1 = self_accumulated_text c \<and>
         self_last_sequence c1 = self_last_sequence c \<and>
         self_last_words c1 = self_last_words c"
  using assms
  by (auto simp: send_audio_def Let_def split: if_splits option.splits sum.splits)



lemma extract_result_state:
  assumes "extract_result lib c result = (x, c')"
  shows "self_sequence c' = self_sequence c \<and> self_ws c' = self_ws c \<and>
         (self_accumulated_text c' = self_accumulated_text c \<and>
          self_last_sequence c' = self_last_sequence c \<or>
          self_last_sequence c < self_last_sequence c')"
proof -
  from extract_result_cases[OF assms] show ?thesis
  proof
    assume "c' = c \<and> (\<forall>r. x = Inr r \<longrightarrow> partial_text r = [])"
    then show ?thesis by simp
  next
    assume "\<exists>msg t fin ws p.
            payload_msg result = Some msg \<and> read_message msg = Inr (t, fin, ws) \<and>
            update_tracker c t (response_sequence result) ws = Inr (p, c') \<and>
            (x = Inl UnicodeEncodeError \<or>
             x = Inr (make_result p fin c') \<and>
             debug_output lib (response_sequence result) t ws c' p fin = None)"
    then obtain t ws p where
      ut: "update_tracker c t (response_sequence result) ws = Inr (p, c')" by blast
    from update_tracker_cases[OF ut] show ?thesis by auto
  qed
qed

lemma extract_result_error:
  assumes "extract_result lib c result = (Inl e, c')"
  shows "c' = c \<or> e = UnicodeEncodeError"
  using extract_result_cases[OF assms] by auto

lemma process_chunk_after_response:
  assumes "open_connection lib net c = (None, c1, sent_init)"
      and "send_audio lib net c1 audio_bytes = (Inr result, c2, sent_audio)"
  shows "process_chunk lib net c audio_bytes =
           (fst (tracker_step lib c2 result), snd (tracker_step lib c2 result),
            \<lparr>sent_full_client_request = sent_init, sent_audio_only_request = sent_audio\<rparr>)"
  using assms
  by (auto simp: process_chunk_def process_chunk_try_def tracker_step_def
      split: sum.splits prod.splits)

text \<open>
  C9. Whenever the \<^verbatim>\<open>try\<close> block of \<^verbatim>\<open>process_chunk\<close> raises an exception \<open>e\<close>,
  \<^verbatim>\<open>process_chunk\<close> returns the dictionary with \<^verbatim>\<open>error\<close> = \<open>e\<close>, an empty
  \<^verbatim>\<open>partial_text\<close>, \<^verbatim>\<open>is_final\<close> false and \<^verbatim>\<open>full_text\<close> = the transcript the
  client holds, its last accumulated one. That transcript is the one held when the call
  began, unless the exception came from the debugging output after a response above
  \<^verbatim>\<open>_last_sequence\<close> had been taken over: nothing accumulated is lost.
\<close>

theorem process_chunk_error_keeps_transcript:
  assumes "process_chunk_try lib net c audio_bytes = (Inl e, c', sent)"
  shows "process_chunk lib net c audio_bytes =
           (\<lparr>error = Some e, partial_text = [], is_final = PBool False,
             full_text = self_accumulated_text c', sequence = self_last_sequence c'\<rparr>,
            c', sent) \<and>
         (self_accumulated_text c' = self_accumulated_text c \<or>
          e = UnicodeEncodeError \<and> self_last_sequence c < self_last_sequence c')"
proof -
  have keep: "self_accumulated_text c' = self_accumulated_text c \<or>
              e = UnicodeEncodeError \<and> self_last_sequence c < self_last_sequence c'"
  proof -
    obtain eo c1 s1 where oc: "open_connection lib net c = (eo, c1, s1)"
      by (cases "open_connection lib net c") auto
    note k1 = open_connection_keeps_tracker[OF oc]
    show ?thesis
    proof (cases eo)
      case (Some e1)
      with oc assms have "c' = c1" by (simp add: process_chunk_try_def)
      with k1 show ?thesis by simp
    next
      case None
      obtain res c2 s2 where sa: "send_audio lib net c1 audio_bytes = (res, c2, s2)"
        by (cases "send_audio lib net c1 audio_bytes") auto
      note k2 = send_audio_keeps_tracker[OF sa]
      show ?thesis
      proof (cases res)
        case (Inl e2)
        with None oc sa assms have "c' = c2" by (simp add: process_chunk_try_def)
        with k1 k2 show ?thesis by simp
      next
        case (Inr result)
        with None oc sa assms have ex: "extract_result lib c2 result = (Inl e, c')"
          by (auto simp: process_chunk_try_def split: prod.splits)
        from extract_result_error[OF ex] extract_result_state[OF ex] k1 k2
        show ?thesis by auto
      qed
    qed
  qed
  then show ?thesis using assms by (simp add: process_chunk_def error_result_def)
qed

theorem process_chunk_error_keeps_transcript_witness:
  "process_chunk stub_library
       (demo_network\<lparr>connect_error := Some (WebSocketError ''refused'')\<rparr>)
       (demo_client\<lparr>self_accumulated_text := PStr ''hello''\<rparr>) [1, 2] =
     (\<lparr>error = Some (AsrConnectFailed (WebSocketError ''refused'')), partial_text = [],
       is_final = PBool False, full_text = PStr ''hello'', sequence = 0\<rparr>,
      demo_client\<lparr>self_accumulated_text := PStr ''hello'', self_sequence := Some 1,
        self_is_first_chunk := Some True, self_reqid := Some ''0''\<rparr>,
      \<lparr>sent_full_client_request = None, sent_audio_only_request = None\<rparr>)"
proof -
  have h: "process_chunk_try stub_library
       (demo_network\<lparr>connect_error := Some (WebSocketError ''refused'')\<rparr>)
       (demo_client\<lparr>self_accumulated_text := PStr ''hello''\<rparr>) [1, 2] =
     (Inl (AsrConnectFailed (WebSocketError ''refused'')),
      demo_client\<lparr>self_accumulated_text := PStr ''hello'', self_sequence := Some 1,
        self_is_first_chunk := Some True, self_reqid := Some ''0''\<rparr>,
      \<lparr>sent_full_client_request = None, sent_audio_only_request = None\<rparr>)"
    by (simp add: process_chunk_try_def open_connection_def demo_network_def demo_client_def
        AsrWsClient_init_def)
  have t: "self_accumulated_text (demo_client\<lparr>self_accumulated_text := PStr ''hello''\<rparr>)
             = PStr ''hello''"
     and q: "self_last_sequence (demo_client\<lparr>self_accumulated_text := PStr ''hello''\<rparr>) = 0"
    by (simp_all add: demo_client_def AsrWsClient_init_def)
  from process_chunk_error_keeps_transcript [OF h] t q show ?thesis by simp
qed

lemma open_connection_counter:
  assumes "open_connection lib net c = (eo, c1, s)" and "counter_ok c"
  shows "counter_ok c1 \<and> sequence_floor c \<le> sequence_floor c1 \<and>
         (eo = None \<longrightarrow> self_ws c1 \<and> self_sequence c1 \<noteq> None)"
  using assms
  by (auto simp: open_connection_def Let_def counter_ok_def sequence_floor_def
      split: if_splits option.splits prod.splits)

lemma send_audio_counter:
  assumes "send_audio lib net c audio_bytes = (res, c1, sent)" and "counter_ok c"
      and "self_ws c" and "self_sequence c \<noteq> None"
  shows "counter_ok c1 \<and> sequence_floor c \<le> sequence_floor c1 \<and>
         (\<forall>f. sent = Some f \<longrightarrow>
            frame_message_type f = AUDIO_ONLY_REQUEST \<and> frame_flags f = POS_SEQUENCE \<and>
            frame_sequence f = sequence_floor c1 \<and> sequence_floor c < sequence_floor c1)"
proof -
  from assms(4) obtain s where s: "self_sequence c = Some s" by auto
  have c1: "c1 = c\<lparr>self_sequence := Some (s + 1)\<rparr>"
    using assms(1) s
    by (auto simp: send_audio_def Let_def split: sum.splits option.splits)
  have fl: "sequence_floor c = s" "sequence_floor c1 = s + 1"
    using s assms(3) c1 by (simp_all add: sequence_floor_def)
  have ok: "counter_ok c1" using assms(2) s c1 by (simp add: counter_ok_def)
  have fr: "frame_message_type f = AUDIO_ONLY_REQUEST \<and> frame_flags f = POS_SEQUENCE \<and>
            frame_sequence f = s + 1" if "sent = Some f" for f
  proof -
    from that assms(1) s
    have "build_frame AUDIO_ONLY_REQUEST POS_SEQUENCE JSON GZIP (s + 1)
            (gzip_compress lib audio_bytes) = Inr f"
      by (auto simp: send_audio_def Let_def split: sum.splits option.splits)
    from audio_frame_fields[OF this] show ?thesis .
  qed
  show ?thesis using fl ok fr by auto
qed


lemma process_chunk_counter:
  assumes "process_chunk lib net c audio_bytes = (r, c', sent)" and "counter_ok c"
  shows "counter_ok c' \<and> sequence_floor c \<le> sequence_floor c' \<and>
         (\<forall>f. sent_audio_only_request sent = Some f \<longrightarrow>
            frame_message_type f = AUDIO_ONLY_REQUEST \<and> frame_flags f = POS_SEQUENCE \<and>
            frame_sequence f = sequence_floor c' \<and> sequence_floor c < sequence_floor c')"
proof -
  obtain eo c1 s1 where oc: "open_connection lib net c = (eo, c1, s1)"
    by (cases "open_connection lib net c") auto
  note k1 = open_connection_counter[OF oc assms(2)]
  show ?thesis
  proof (cases eo)
    case (Some e1)
    with oc assms(1) have "c' = c1" "sent_audio_only_request sent = None"
      by (auto simp: process_chunk_def process_chunk_try_def)
    with k1 show ?thesis by simp
  next
    case None
    obtain res c2 s2 where sa: "send_audio lib net c1 audio_bytes = (res, c2, s2)"
      by (cases "send_audio lib net c1 audio_bytes") auto
    from k1 None have pre: "counter_ok c1" "self_ws c1" "self_sequence c1 \<noteq> None" by simp_all
    note k2 = send_audio_counter[OF sa pre]
    have sent: "sent_audio_only_request sent = s2"
      using None oc sa assms(1)
      by (auto simp: process_chunk_def process_chunk_try_def split: sum.splits prod.splits)
    have "self_sequence c' = self_sequence c2 \<and> self_ws c' = self_ws c2"
    proof (cases res)
      case (Inl e2)
      with None oc sa assms(1) have "c' = c2"
        by (auto simp: process_chunk_def process_chunk_try_def)
      then show ?thesis by simp
    next
      case (Inr result)
      obtain x c3 where ex: "extract_result lib c2 result = (x, c3)"
        by (cases "extract_result lib c2 result")
      with Inr None oc sa assms(1) have "c' = c3"
        by (auto simp: process_chunk_def process_chunk_try_def split: sum.splits)
      with extract_result_state[OF ex] show ?thesis by simp
    qed
    then have same: "counter_ok c' = counter_ok c2" "sequence_floor c' = sequence_floor c2"
      by (auto simp: counter_ok_def sequence_floor_def split: option.splits)
    show ?thesis using k1 k2 sent same by auto
  qed
qed

lemma audio_frames_above_floor:
  assumes "counter_ok c"
  shows "(\<forall>f\<in>set (audio_frames lib c calls).
            frame_message_type f = AUDIO_ONLY_REQUEST \<and> frame_flags f = POS_SEQUENCE \<and>
            sequence_floor c < frame_sequence f) \<and>
         sorted_wrt (<) (map frame_sequence (audio_frames lib c calls))"
  using assms
proof (induction calls arbitrary: c)
  case Nil
  show ?case by simp
next
  case (Cons call rest)
  obtain net audio_bytes where call: "call = (net, audio_bytes)" by (cases call)
  obtain r c' sent where pc: "process_chunk lib net c audio_bytes = (r, c', sent)"
    by (cases "process_chunk lib net c audio_bytes") auto
  note st = process_chunk_counter[OF pc Cons.prems]
  from st have ok': "counter_ok c'" by simp
  note ih = Cons.IH[OF ok']
  show ?case
  proof (cases "sent_audio_only_request sent")
    case None
    then have "audio_frames lib c (call # rest) = audio_frames lib c' rest"
      using call pc by simp
    then show ?thesis using ih st by fastforce
  next
    case (Some f)
    then have af: "audio_frames lib c (call # rest) = f # audio_frames lib c' rest"
      using call pc by simp
    from st Some have ff: "frame_message_type f = AUDIO_ONLY_REQUEST" "frame_flags f = POS_SEQUENCE"
      "frame_sequence f = sequence_floor c'" "sequence_floor c < sequence_floor c'" by simp_all
    show ?thesis unfolding af using ih ff by fastforce
  qed
qed

text \<open>
  C10. On a client whose send counter, where it exists, is not negative (a new client has
  none), every audio frame that any list of \<^verbatim>\<open>process_chunk\<close> calls puts on the socket
  has the message type \<^verbatim>\<open>AUDIO_ONLY_REQUEST\<close> and the flags \<^verbatim>\<open>POS_SEQUENCE\<close>, never
  \<^verbatim>\<open>NEG_WITH_SEQUENCE\<close>, and a positive sequence number; along the calls the sequence
  numbers strictly ascend.
\<close>

theorem live_audio_frames_positive_ascending:
  assumes "case self_sequence c of None \<Rightarrow> True | Some s \<Rightarrow> 0 \<le> s"
  shows "(\<forall>f\<in>set (audio_frames lib c calls).
            frame_message_type f = AUDIO_ONLY_REQUEST \<and> frame_flags f = POS_SEQUENCE \<and>
            frame_flags f \<noteq> NEG_WITH_SEQUENCE \<and> 0 < frame_sequence f) \<and>
         sorted_wrt (<) (map frame_sequence (audio_frames lib c calls))"
proof -
  have ok: "counter_ok c" using assms by (simp add: counter_ok_def)
  have "0 \<le> sequence_floor c" using assms by (simp add: sequence_floor_def split: option.splits)
  then show ?thesis using audio_frames_above_floor[OF ok, of lib calls]
    by (fastforce simp: protocol_constants)
qed

theorem live_audio_frames_positive_ascending_witness:
  "audio_frames stub_library demo_client [(demo_network, [1, 2]), (demo_network, [3])] =
     [[0x11, 0x21, 0x11, 0x00, 0, 0, 0, 2, 0, 0, 0, 4, 0x1f, 0x8b, 1, 2],
      [0x11, 0x21, 0x11, 0x00, 0, 0, 0, 3, 0, 0, 0, 3, 0x1f, 0x8b, 3]] \<and>
   frame_flags [0x11, 0x21, 0x11, 0x00, 0, 0, 0, 2, 0, 0, 0, 4, 0x1f, 0x8b, 1, 2]
     = POS_SEQUENCE \<and>
   0 < frame_sequence [0x11, 0x21, 0x11, 0x00, 0, 0, 0, 2, 0, 0, 0, 4, 0x1f, 0x8b, 1, 2] \<and>
   frame_sequence [0x11, 0x21, 0x11, 0x00, 0, 0, 0, 2, 0, 0, 0, 4, 0x1f, 0x8b, 1, 2]
     < frame_sequence [0x11, 0x21, 0x11, 0x00, 0, 0, 0, 3, 0, 0, 0, 3, 0x1f, 0x8b, 3]"
proof -
  have ev: "audio_frames stub_library demo_client [(demo_network, [1, 2]), (demo_network, [3])] =
     [[0x11, 0x21, 0x11, 0x00, 0, 0, 0, 2, 0, 0, 0, 4, 0x1f, 0x8b, 1, 2],
      [0x11, 0x21, 0x11, 0x00, 0, 0, 0, 3, 0, 0, 0, 3, 0x1f, 0x8b, 3]]"
    by (simp add: process_chunk_def process_chunk_try_def open_connection_def init_exchange_def
        send_audio_def extract_result_def make_result_def
        build_frame_def generate_header_def append_byte_def generate_before_payload_def
        to_bytes_signed_def to_bytes_unsigned_def bind_err_def protocol_constants
        stub_library_def parse_response_def from_bytes_signed_def from_bytes_unsigned_def
        be_bytes_numeral demo_network_def demo_client_def AsrWsClient_init_def Let_def)
  have h: "case self_sequence demo_client of None \<Rightarrow> True | Some s \<Rightarrow> 0 \<le> s"
    by (simp add: demo_client_def AsrWsClient_init_def)
  note t = live_audio_frames_positive_ascending
             [OF h, of stub_library "[(demo_network, [1, 2]), (demo_network, [3])]",
              unfolded ev]
  from t ev show ?thesis by simp
qed

end
